theory Spec2Isabelle
  imports Main "HOL-Library.AList"
begin

section \<open>JavaScript values\<close>

text \<open>
  The sources are JavaScript and TypeScript; the values they handle are untyped at run
  time, so the embedding works on one type of values.

  \<^item> Numbers are restricted to integers.
  \<^item> An object is the view the code has of it: the properties a \<open>for ... in\<close> loop
    enumerates (own or inherited), the properties that can be read but are not enumerated
    (such as the \<open>constructor\<close> and the methods a class body puts on the prototype),
    and the code it runs when it is a function.
  \<^item> A function is an object with code. Its code is given by what a call on the object
    holding it returns and by what \<open>new\<close> builds; \<open>None\<close> stands for an exception
    (an arrow function has no \<open>new\<close>, a class cannot be called without it).
  \<^item> Arrays, getters, frozen objects and user-defined \<open>toString\<close>/\<open>valueOf\<close>
    conversions are outside the fragment, and so are the built-in members of primitive
    values other than \<open>constructor\<close>.
\<close>

datatype jsval =
    JUndefined
  | JNull
  | JBool bool
  | JNum int
  | JStr string
  | JObj "(string \<times> jsval) list" "(string \<times> jsval) list" code
and code =
    NoCode
  | Code "jsval option" "jsval option"

datatype js_error =
    TypeError
  | Thrown
  | SyntaxError
  | SystemError
  | JsError jsval
  | JsErrorCat string jsval

text \<open>
  \<open>TypeError\<close> is raised by the runtime, \<open>Thrown\<close> by the code of a function value,
  \<open>SyntaxError\<close> by \<open>JSON.parse\<close> and \<open>SystemError\<close> by the file system.
  \<open>JsError v\<close> is \<open>new Error(v)\<close> and \<open>JsErrorCat s v\<close> is \<open>new Error(s + v)\<close>;
  the conversion of \<open>v\<close> to the message text is left symbolic.
\<close>

datatype 'a completion = Threw js_error | Returned 'a

datatype 'a promise = Fulfilled 'a | Rejected js_error

text \<open>
  The built-in constructors are represented by their \<open>name\<close>. HOL values cannot be
  cyclic, so what they return is cut down to a bare object.
\<close>

definition builtin :: "string \<Rightarrow> jsval" where
  "builtin n = JObj [] [(''name'', JStr n)]
     (Code (Some (JObj [] [] NoCode)) (Some (JObj [] [] NoCode)))"

text \<open>An object literal, or an object read by \<open>JSON.parse\<close>.\<close>

definition plain :: "(string \<times> jsval) list \<Rightarrow> jsval" where
  "plain ps = JObj ps [(''constructor'', builtin ''Object'')] NoCode"

text \<open>A function or class named \<open>n\<close>.\<close>

definition func :: "string \<Rightarrow> jsval option \<Rightarrow> jsval option \<Rightarrow> jsval" where
  "func n call new =
     JObj [] [(''name'', JStr n), (''constructor'', builtin ''Function'')] (Code call new)"

fun truthy :: "jsval \<Rightarrow> bool" where
  "truthy JUndefined = False"
| "truthy JNull = False"
| "truthy (JBool b) = b"
| "truthy (JNum n) = (n \<noteq> 0)"
| "truthy (JStr s) = (s \<noteq> [])"
| "truthy (JObj e h c) = True"

fun js_typeof :: "jsval \<Rightarrow> string" where
  "js_typeof JUndefined = ''undefined''"
| "js_typeof JNull = ''object''"
| "js_typeof (JBool b) = ''boolean''"
| "js_typeof (JNum n) = ''number''"
| "js_typeof (JStr s) = ''string''"
| "js_typeof (JObj e h NoCode) = ''object''"
| "js_typeof (JObj e h (Code call new)) = ''function''"

text \<open>
  Reading a property. On \<open>null\<close> and \<open>undefined\<close> JavaScript raises a TypeError: every
  read below is either guarded by \<open>truthy\<close> in the source, or preceded by an explicit
  \<open>nullish\<close> test in the model.
\<close>

fun nullish :: "jsval \<Rightarrow> bool" where
  "nullish JUndefined = True"
| "nullish JNull = True"
| "nullish v = False"

fun get :: "jsval \<Rightarrow> string \<Rightarrow> jsval" where
  "get (JObj e h c) k =
     (case map_of e k of
        Some v \<Rightarrow> v
      | None \<Rightarrow> (case map_of h k of Some v \<Rightarrow> v | None \<Rightarrow> JUndefined))"
| "get (JNum n) k = (if k = ''constructor'' then builtin ''Number'' else JUndefined)"
| "get (JStr s) k = (if k = ''constructor'' then builtin ''String'' else JUndefined)"
| "get (JBool b) k = (if k = ''constructor'' then builtin ''Boolean'' else JUndefined)"
| "get JUndefined k = JUndefined"
| "get JNull k = JUndefined"

text \<open>
  \<open>_.isFunction\<close> and \<open>_.isObject\<close>. \<open>_.isString\<close> is true of the values \<open>JStr s\<close>
  (and of boxed strings, which \<open>_.isObject\<close> accepts before it is asked).
\<close>

definition isFunction :: "jsval \<Rightarrow> bool" where
  "isFunction v = (js_typeof v = ''function'')"

definition isObject :: "jsval \<Rightarrow> bool" where
  "isObject v = (js_typeof v = ''function'' \<or> (js_typeof v = ''object'' \<and> truthy v))"

text \<open>
  The properties a \<open>for ... in\<close> loop copies from a source (\<open>_.allKeys\<close> of underscore,
  \<open>keysIn\<close> of lodash); a source that is not an object has none.
\<close>

fun enumerable :: "jsval \<Rightarrow> (string \<times> jsval) list" where
  "enumerable (JObj e h c) = e"
| "enumerable v = []"

text \<open>
  \<open>obj[k] = v\<close> on an object: the property becomes an enumerable one of the object and
  hides an inherited one of the same name.
\<close>

fun put :: "jsval \<Rightarrow> string \<times> jsval \<Rightarrow> jsval" where
  "put (JObj e h c) (k, v) = JObj (AList.update k v e) h c"
| "put w (k, v) = w"

text \<open>
  \<open>Object(v)\<close>: an object is itself, \<open>null\<close> and \<open>undefined\<close> give a new empty object,
  a primitive is boxed.
\<close>

fun to_object :: "jsval \<Rightarrow> jsval" where
  "to_object JUndefined = plain []"
| "to_object JNull = plain []"
| "to_object (JObj e h c) = JObj e h c"
| "to_object v = JObj [] [(''constructor'', get v ''constructor'')] NoCode"

text \<open>
  \<open>_.extend(dest, source, ...)\<close>: the enumerable properties of each source are assigned
  to \<open>dest\<close> in order, a later source overriding an earlier one; \<open>dest\<close> is returned.
  lodash first turns \<open>dest\<close> into an object with \<open>Object(dest)\<close>.
\<close>

definition underscore_extend :: "jsval \<Rightarrow> jsval list \<Rightarrow> jsval" where
  "underscore_extend dest sources = foldl (\<lambda>d src. foldl put d (enumerable src)) dest sources"

definition lodash_extend :: "jsval \<Rightarrow> jsval list \<Rightarrow> jsval" where
  "lodash_extend dest sources = underscore_extend (to_object dest) sources"

section \<open>Log levels\<close>

text \<open>
  The enumeration \<open>LogLevel\<close> comes from the package \<open>@some1one/js-utils-extended\<close>,
  which is not part of the repository: its numeric values are a parameter.
\<close>

record LogLevel =
  Silent :: int
  Error :: int
  Warn :: int
  Info :: int
  Debug :: int

section \<open>LoggerConfiguration\<close>

text \<open>
  The configuration object and the trace of events it has emitted; an event is its name
  and the configuration held when it was emitted.
\<close>

record LoggerConfiguration =
  current :: jsval
  emitted :: "(string \<times> jsval) list"

definition CONFIG_CHANGE :: string where
  "CONFIG_CHANGE = ''configChange''"

definition default_categories :: "LogLevel \<Rightarrow> jsval" where
  "default_categories lv = plain [(''categories'', plain [(''Default'', JNum (Info lv))])]"

text \<open>The setter of \<open>current\<close>.\<close>

definition set_current :: "LogLevel \<Rightarrow> LoggerConfiguration \<Rightarrow> jsval \<Rightarrow> LoggerConfiguration" where
  "set_current lv this v =
     (let cur = (if \<not> truthy v \<or> js_typeof (get v ''categories'') \<noteq> ''object''
                 then lodash_extend v [default_categories lv]
                 else v)
      in this\<lparr>current := cur, emitted := emitted this @ [(CONFIG_CHANGE, cur)]\<rparr>)"

text \<open>The constructor: \<open>super(200); this.current = configuration\<close>.\<close>

definition new_LoggerConfiguration :: "LogLevel \<Rightarrow> jsval \<Rightarrow> LoggerConfiguration" where
  "new_LoggerConfiguration lv configuration =
     set_current lv \<lparr>current = JUndefined, emitted = []\<rparr> configuration"

text \<open>
  \<open>getCategoryLevel\<close>: \<open>this.current.categories[category] || this.current.categories.Default\<close>.
  Reading a property of a \<open>categories\<close> that is \<open>null\<close> or \<open>undefined\<close> raises a TypeError.
\<close>

definition getCategoryLevel :: "LoggerConfiguration \<Rightarrow> string \<Rightarrow> jsval completion" where
  "getCategoryLevel this category =
     (if nullish (current this) \<or> nullish (get (current this) ''categories'') then Threw TypeError
      else if truthy (get (get (current this) ''categories'') category)
           then Returned (get (get (current this) ''categories'') category)
      else Returned (get (get (current this) ''categories'') ''Default''))"

section \<open>LogWrapper\<close>

text \<open>
  The wrapper's state. The underlying \<open>logger\<close> (the console by default) is
  represented by the calls made to it, which each method returns in order. The
  \<open>configuration\<close> is present or absent; the level setter detaches a listener from it,
  which changes the emitter (a class outside the repository) and not the wrapper.
\<close>

record LogWrapper =
  level :: int
  category :: string
  configuration :: "LoggerConfiguration option"

datatype logger_call =
    Logger_debug string
  | Logger_info string
  | Logger_warn string
  | Logger_error string

text \<open>\<open>new LogWrapper()\<close>: level \<open>LogLevel.Info\<close>, category \<open>Default\<close>, no configuration.\<close>

definition new_LogWrapper :: "LogLevel \<Rightarrow> LogWrapper" where
  "new_LogWrapper lv = \<lparr>level = Info lv, category = ''Default'', configuration = None\<rparr>"

definition set_level :: "LogWrapper \<Rightarrow> int \<Rightarrow> LogWrapper" where
  "set_level this v = this\<lparr>level := v\<rparr>"

definition debug :: "LogLevel \<Rightarrow> LogWrapper \<Rightarrow> string \<Rightarrow> logger_call list" where
  "debug lv this message = (if level this \<ge> Debug lv then [Logger_debug message] else [])"

definition log :: "LogLevel \<Rightarrow> LogWrapper \<Rightarrow> string \<Rightarrow> logger_call list" where
  "log lv this message = (if level this \<ge> Info lv then [Logger_info message] else [])"

definition info :: "LogLevel \<Rightarrow> LogWrapper \<Rightarrow> string \<Rightarrow> logger_call list" where
  "info lv this message = (if level this \<ge> Info lv then [Logger_info message] else [])"

definition warn :: "LogLevel \<Rightarrow> LogWrapper \<Rightarrow> string \<Rightarrow> logger_call list" where
  "warn lv this message = (if level this \<ge> Warn lv then [Logger_warn message] else [])"

text \<open>
  The argument of \<open>error\<close>: a string, or an \<open>Error\<close> object with its \<open>isOperational\<close>
  flag, its \<open>message\<close> and its \<open>stack\<close> (absent when \<open>null\<close> or \<open>undefined\<close>).
\<close>

datatype error_message =
    Text string
  | ErrorObject bool string "string option"

fun messageString :: "error_message \<Rightarrow> string" where
  "messageString (Text s) = s"
| "messageString (ErrorObject isOperational message stack) =
     (if isOperational then message
      else (case stack of Some st \<Rightarrow> st | None \<Rightarrow> message))"

definition error :: "LogWrapper \<Rightarrow> error_message \<Rightarrow> logger_call list" where
  "error this message = [Logger_error (messageString message)]"

definition silent :: "LogLevel \<Rightarrow> LogWrapper" where
  "silent lv = set_level (new_LogWrapper lv) (Silent lv)"

section \<open>ActorSystem\<close>

subsection \<open>Strings and numbers\<close>

text \<open>
  A string is the list of its bytes in UTF-8, so an ASCII character is one byte below 128.
  \<open>toLowerCase\<close> of an ASCII character changes the letters \<open>A\<close> to \<open>Z\<close> only.
\<close>

definition toLowerCase :: "char \<Rightarrow> char" where
  "toLowerCase c =
     (if (65::nat) \<le> of_char c \<and> of_char c \<le> (90::nat) then char_of (of_char c + (32::nat)) else c)"

text \<open>
  \<open>s.decapitalize\<close> of underscore.string: \<open>str.charAt(0).toLowerCase() + str.slice(1)\<close>.
  When the first character is not ASCII, the result depends on the Unicode case tables of
  the runtime, which are not part of the repository: \<open>lowerFirst\<close>, a parameter, is what
  this expression gives for such a string.
\<close>

fun decapitalize :: "(string \<Rightarrow> string) \<Rightarrow> string \<Rightarrow> string" where
  "decapitalize lowerFirst [] = []"
| "decapitalize lowerFirst (c # cs) =
     (if of_char c < (128::nat) then toLowerCase c # cs else lowerFirst (c # cs))"


definition digit_char :: "nat \<Rightarrow> char" where
  "digit_char d = char_of (48 + d)"

text \<open>The decimal text of a number, as \<open>'' + n\<close> gives it.\<close>

fun show_nat :: "nat \<Rightarrow> string" where
  "show_nat n = (if n < 10 then [digit_char n] else show_nat (n div 10) @ [digit_char (n mod 10)])"

declare show_nat.simps [simp del]

definition show_int :: "int \<Rightarrow> string" where
  "show_int i = (if i < 0 then CHR ''-'' # show_nat (nat (- i)) else show_nat (nat i))"


text \<open>
  \<open>makeString\<close> of underscore.string: \<open>''\<close> for \<open>null\<close> and \<open>undefined\<close>, \<open>'' + v\<close>
  otherwise. The text of an object is outside the fragment (\<open>None\<close>).
\<close>

fun makeString :: "jsval \<Rightarrow> string option" where
  "makeString JUndefined = Some []"
| "makeString JNull = Some []"
| "makeString (JStr s) = Some s"
| "makeString (JNum n) = Some (show_int n)"
| "makeString (JBool b) = Some (if b then ''true'' else ''false'')"
| "makeString (JObj e h c) = None"

text \<open>
  \<open>v > 1\<close>: \<open>undefined\<close> is \<open>NaN\<close>, \<open>null\<close> is 0, a boolean is 0 or 1. The number a
  string or an object stands for is outside the fragment (\<open>None\<close>).
\<close>

fun gt_one :: "jsval \<Rightarrow> bool option" where
  "gt_one (JNum n) = Some (1 < n)"
| "gt_one JUndefined = Some False"
| "gt_one JNull = Some False"
| "gt_one (JBool b) = Some False"
| "gt_one (JStr s) = None"
| "gt_one (JObj e h c) = None"

subsection \<open>Calling and instantiating function values\<close>

fun js_new :: "jsval \<Rightarrow> jsval completion" where
  "js_new (JObj e h (Code call (Some inst))) = Returned inst"
| "js_new (JObj e h (Code call None)) = Threw Thrown"
| "js_new v = Threw TypeError"

fun js_call :: "jsval \<Rightarrow> jsval completion" where
  "js_call (JObj e h (Code (Some r) new)) = Returned r"
| "js_call (JObj e h (Code None new)) = Threw Thrown"
| "js_call v = Threw TypeError"

text \<open>\<open>_.result(object, property)\<close>: the property, called on the object when it is a function.\<close>

definition result :: "jsval \<Rightarrow> string \<Rightarrow> jsval completion" where
  "result object property =
     (let v = (if nullish object then JUndefined else get object property)
      in if isFunction v then js_call v else Returned v)"

subsection \<open>The system\<close>

text \<open>
  The fields of the system the operations below read or write. \<open>config\<close> is
  \<open>undefined\<close> until a configuration is loaded. \<open>log_calls\<close> is the trace of the calls
  made to \<open>this.log\<close>, each the method and the message.
\<close>

record ActorSystem =
  config :: jsval
  options :: jsval
  debugPortCounter :: nat
  log_calls :: "(string \<times> string) list"

text \<open>
  The part of the constructor that initialises these fields:
  \<open>options = options || {}\<close>, \<open>this.debugPortCounter = 1\<close>, \<open>this.options = _.clone(options)\<close>.
\<close>

definition new_ActorSystem :: "jsval \<Rightarrow> ActorSystem" where
  "new_ActorSystem opts =
     \<lparr>config = JUndefined,
      options = (if truthy opts then opts else plain []),
      debugPortCounter = 1,
      log_calls = []\<rparr>"

subsection \<open>Name resolution\<close>

definition instantiate :: "jsval \<Rightarrow> jsval completion" where
  "instantiate Behaviour = (if isFunction Behaviour then js_new Behaviour else Returned Behaviour)"

text \<open>\<open>_actorName\<close>, after \<open>behaviour0\<close> has been determined.\<close>

definition nameOf :: "jsval \<Rightarrow> jsval completion" where
  "nameOf behaviour0 =
     (if nullish behaviour0 then Threw TypeError
      else if truthy (get behaviour0 ''name'') then result behaviour0 ''name''
      else if isFunction (get behaviour0 ''getName'') then js_call (get behaviour0 ''getName'')
      else if truthy (get behaviour0 ''constructor'') \<and>
              truthy (get (get behaviour0 ''constructor'') ''name'')
           then Returned (get (get behaviour0 ''constructor'') ''name'')
      else Returned (JStr []))"

definition actorName :: "jsval \<Rightarrow> jsval completion" where
  "actorName Behaviour =
     (case instantiate Behaviour of
        Threw e \<Rightarrow> Threw e
      | Returned behaviour0 \<Rightarrow> nameOf behaviour0)"

subsection \<open>createActor\<close>

text \<open>
  The promise \<open>createActor\<close> returns, described by the call that produces it:
  the balancer with the number of children, the behaviour and the options each child is
  created with; \<open>createInMemoryActor(Behaviour, parent, actorName)\<close>;
  \<open>createForkedActor(Behaviour, parent, actorName)\<close>; or a promise that is rejected.
\<close>

datatype 'p creation =
    Cluster 'p nat jsval jsval
  | CreateInMemoryActor jsval 'p jsval
  | CreateForkedActor jsval 'p jsval
  | Rejection js_error

text \<open>
  The options after the configuration step: when the system has a configuration and the
  actor has a name, \<open>_.extend({ mode: 'in-memory' }, actorConfig, options)\<close>.
\<close>

definition actorOptions ::
  "(string \<Rightarrow> string) \<Rightarrow> ActorSystem \<Rightarrow> jsval \<Rightarrow> jsval \<Rightarrow> jsval option" where
  "actorOptions lowerFirst this name opts =
     (let options0 = (if truthy opts then opts else plain [])
      in if truthy (config this) \<and> truthy name
         then (case makeString name of
                 None \<Rightarrow> None
               | Some s \<Rightarrow>
                   Some (underscore_extend (plain [(''mode'', JStr ''in-memory'')])
                           [get (config this) (decapitalize lowerFirst s), options0]))
         else Some options0)"

text \<open>Clusterization and the switch on the mode.\<close>

definition place :: "jsval \<Rightarrow> 'p \<Rightarrow> jsval \<Rightarrow> jsval \<Rightarrow> 'p creation option" where
  "place Behaviour parent name opts =
     (case gt_one (get opts ''clusterSize'') of
        None \<Rightarrow> None
      | Some True \<Rightarrow>
          (case get opts ''clusterSize'' of
             JNum n \<Rightarrow>
               Some (Cluster parent (nat n) Behaviour
                       (underscore_extend (plain []) [opts, plain [(''clusterSize'', JNum 1)]]))
           | _ \<Rightarrow> None)
      | Some False \<Rightarrow>
          (let mode = (if truthy (get opts ''mode'') then get opts ''mode'' else JStr ''in-memory'')
           in if mode = JStr ''in-memory'' then Some (CreateInMemoryActor Behaviour parent name)
              else if mode = JStr ''forked'' then Some (CreateForkedActor Behaviour parent name)
              else Some (Rejection (JsErrorCat ''Unknown actor mode: '' (get opts ''mode'')))))"

text \<open>
  \<open>createActor\<close>: what the call does synchronously (an exception, or the promise it
  returns); \<open>None\<close> when a step leaves the fragment.
\<close>

definition createActor ::
  "(string \<Rightarrow> string) \<Rightarrow> ActorSystem \<Rightarrow> jsval \<Rightarrow> 'p \<Rightarrow> jsval \<Rightarrow> 'p creation completion option" where
  "createActor lowerFirst this Behaviour parent opts =
     (case actorName Behaviour of
        Threw e \<Rightarrow> Some (Threw e)
      | Returned name \<Rightarrow>
          (case actorOptions lowerFirst this name opts of
             None \<Rightarrow> None
           | Some opts' \<Rightarrow>
               (case place Behaviour parent name opts' of
                  None \<Rightarrow> None
                | Some c \<Rightarrow> Some (Returned c))))"

subsection \<open>createForkedActor: the debug port of a child\<close>






subsection \<open>createForkedActor: the first frame of the worker\<close>

record ('s, 'p, 'w) ForkedActorParent =
  fap_system :: 's
  fap_parent :: 'p
  fap_bus :: 'w
  fap_id :: jsval
  fap_name :: jsval

definition unexpected_response :: string where
  "unexpected_response =
     ''Unexpected response for '' @ [CHR 0x22] @ ''create-actor'' @ [CHR 0x22] @ '' message.''"

text \<open>
  The listener of the worker's first \<open>message\<close>: it throws, or settles the promise of
  the spawn. In the fragment, \<open>msg.type != 'actor-created'\<close> holds exactly when the type
  is not that string.
\<close>

definition on_message ::
  "'s \<Rightarrow> 'p \<Rightarrow> 'w \<Rightarrow> jsval \<Rightarrow> jsval \<Rightarrow> ('s, 'p, 'w) ForkedActorParent promise completion" where
  "on_message this parent workerProcess name msg =
     (if nullish msg then Threw TypeError
      else if truthy (get msg ''error'') then Returned (Rejected (JsError (get msg ''error'')))
      else if get msg ''type'' \<noteq> JStr ''actor-created'' \<or> \<not> truthy (get msg ''body'') \<or>
              \<not> truthy (get (get msg ''body'') ''id'')
           then Returned (Rejected (JsError (JStr unexpected_response)))
      else Returned (Fulfilled
             \<lparr>fap_system = this, fap_parent = parent, fap_bus = workerProcess,
              fap_id = get (get msg ''body'') ''id'', fap_name = name\<rparr>))"

subsection \<open>require\<close>

datatype module_load =
    GlobalRequire string
  | RequireDir string

text \<open>
  \<open>appRootPath + modulePath\<close> is the text of the application root followed by the path.
  \<open>modulePath[0]\<close> of the empty string is \<open>undefined\<close>, which differs from both characters.
\<close>

definition require :: "string \<Rightarrow> string \<Rightarrow> module_load" where
  "require appRootPath modulePath =
     (if modulePath = [] \<or> (hd modulePath \<noteq> CHR ''/'' \<and> hd modulePath \<noteq> CHR ''.'')
      then GlobalRequire modulePath
      else if last modulePath = CHR ''/'' then RequireDir (appRootPath @ modulePath)
      else GlobalRequire (appRootPath @ modulePath))"

subsection \<open>Loading the configuration\<close>

text \<open>
  The environment of the loader: the file system (\<open>None\<close> when the read fails),
  \<open>JSON.parse\<close> (\<open>None\<close> when it throws) and the application root. The file system and
  the JSON parser are not part of the repository.
\<close>

record environment =
  readFile :: "string \<Rightarrow> string option"
  parse :: "string \<Rightarrow> jsval option"
  appRootPath :: string

definition readFileAsync :: "environment \<Rightarrow> string \<Rightarrow> string promise" where
  "readFileAsync env path =
     (case readFile env path of None \<Rightarrow> Rejected SystemError | Some data \<Rightarrow> Fulfilled data)"

text \<open>\<open>promise.then(f)\<close> and \<open>promise.catch(g)\<close>, the handlers working on the system.\<close>

definition then_p ::
  "'a promise \<Rightarrow> ('a \<Rightarrow> 's \<Rightarrow> 's \<times> 'b promise) \<Rightarrow> 's \<Rightarrow> 's \<times> 'b promise" where
  "then_p p f s = (case p of Fulfilled x \<Rightarrow> f x s | Rejected e \<Rightarrow> (s, Rejected e))"

definition catch_p ::
  "'s \<times> 'a promise \<Rightarrow> (js_error \<Rightarrow> 's \<Rightarrow> 's \<times> 'a promise) \<Rightarrow> 's \<times> 'a promise" where
  "catch_p sp g = (case snd sp of Fulfilled x \<Rightarrow> sp | Rejected e \<Rightarrow> g e (fst sp))"

definition log_info :: "string \<Rightarrow> ActorSystem \<Rightarrow> ActorSystem" where
  "log_info message this = this\<lparr>log_calls := log_calls this @ [(''info'', message)]\<rparr>"

text \<open>The handler both reads share: \<open>this.config = JSON.parse(data)\<close>, then a message.\<close>

definition use_file :: "environment \<Rightarrow> string \<Rightarrow> string \<Rightarrow> ActorSystem \<Rightarrow> ActorSystem \<times> unit promise" where
  "use_file env path data this =
     (case parse env data of
        None \<Rightarrow> (this, Rejected SyntaxError)
      | Some v \<Rightarrow>
          (log_info (''Using actor configuration file: '' @ path) (this\<lparr>config := v\<rparr>),
           Fulfilled ()))"

definition defaultPath :: "environment \<Rightarrow> string" where
  "defaultPath env = appRootPath env @ ''/actors.json''"

text \<open>
  \<open>_loadConfiguration\<close> for a \<open>config\<close> that is neither an object nor a string: the end
  of the function, which the call \<open>this._loadConfiguration()\<close> of the fallback reaches.
\<close>

definition loadDefault :: "environment \<Rightarrow> ActorSystem \<Rightarrow> ActorSystem \<times> unit promise" where
  "loadDefault env this =
     catch_p (then_p (readFileAsync env (defaultPath env)) (use_file env (defaultPath env)) this)
       (\<lambda>e this'.
          (log_info (''Failed to load actor configuration file '' @ defaultPath env @
                     '', no actor configuration will be used.'') this',
           Fulfilled ()))"

definition loadConfiguration ::
  "environment \<Rightarrow> ActorSystem \<Rightarrow> jsval \<Rightarrow> ActorSystem \<times> unit promise" where
  "loadConfiguration env this cfg =
     (if isObject cfg
      then ((if truthy (get (options this) ''forked'') then this\<lparr>config := cfg\<rparr>
             else log_info ''Using programmatic actor configuration.'' (this\<lparr>config := cfg\<rparr>)),
            Fulfilled ())
      else (case cfg of
              JStr path \<Rightarrow>
                catch_p (then_p (readFileAsync env path) (use_file env path) this)
                  (\<lambda>e this'.
                     loadDefault env
                       (log_info (''Failed to load actor configuration file '' @ path @
                                  '', will try default path: '' @ defaultPath env) this'))
            | _ \<Rightarrow> loadDefault env this))"

subsection \<open>The default system\<close>

text \<open>
  The module variable \<open>defaultSystem\<close> is \<open>undefined\<close> (\<open>None\<close>) when the module is
  loaded, and only \<open>ActorSystem.default\<close> assigns it. Systems are told apart by the order
  in which they were constructed: the module state is the variable and the number of
  systems constructed so far. The call returns the value of the variable.
\<close>

record module_state =
  defaultSystem :: "nat option"
  constructed :: nat

definition module_loaded :: module_state where
  "module_loaded = \<lparr>defaultSystem = None, constructed = 0\<rparr>"

definition default :: "module_state \<Rightarrow> nat option \<times> module_state" where
  "default m =
     (let m' = (if defaultSystem m \<noteq> None
                then m\<lparr>defaultSystem := Some (constructed m), constructed := constructed m + 1\<rparr>
                else m)
      in (defaultSystem m', m'))"

text \<open>The values \<open>k\<close> calls in a row return.\<close>

fun default_calls :: "module_state \<Rightarrow> nat \<Rightarrow> nat option list" where
  "default_calls m 0 = []"
| "default_calls m (Suc k) = (let (r, m') = default m in r # default_calls m' k)"

subsection \<open>Example values\<close>

text \<open>
  A class named \<open>n\<close> whose instances have the methods \<open>ms\<close> on their prototype; it
  cannot be called without \<open>new\<close>. The \<open>constructor\<close> of an instance is the class, cut
  down to its name.
\<close>

definition js_class :: "string \<Rightarrow> (string \<times> jsval) list \<Rightarrow> jsval" where
  "js_class n ms =
     func n None (Some (JObj [] (ms @ [(''constructor'', func n None None)]) NoCode))"

definition LogLevel0 :: LogLevel where
  "LogLevel0 = \<lparr>Silent = 0, Error = 1, Warn = 2, Info = 3, Debug = 4\<rparr>"

text \<open>A system whose configuration is \<open>cfg\<close>.\<close>

definition system_with :: "jsval \<Rightarrow> ActorSystem" where
  "system_with cfg = (new_ActorSystem JUndefined)\<lparr>config := cfg\<rparr>"

text \<open>An environment in which no file can be read.\<close>

definition no_files :: "string \<Rightarrow> environment" where
  "no_files root = \<lparr>readFile = Map.empty, parse = Map.empty, appRootPath = root\<rparr>"

section \<open>Properties of LoggerConfiguration\<close>

lemma to_object_is_JObj: "\<exists>e h c. to_object v = JObj e h c"
  by (cases v) (simp_all add: plain_def)

text \<open>Each assignment emits exactly one event, which carries the stored configuration.\<close>

lemma set_current_emits_once:
  "emitted (set_current lv this v) =
     emitted this @ [(CONFIG_CHANGE, current (set_current lv this v))]"
  by (simp add: set_current_def Let_def)

text \<open>What the setter guarantees of the stored \<open>categories\<close> is that \<open>typeof\<close> calls it an object.\<close>

lemma set_current_typeof:
  "js_typeof (get (current (set_current lv this v)) ''categories'') = ''object''"
proof -
  obtain e h c where o: "to_object v = JObj e h c"
    using to_object_is_JObj by blast
  show ?thesis
    by (simp add: set_current_def Let_def lodash_extend_def underscore_extend_def
        default_categories_def plain_def o update_conv')
qed

text \<open>
  C10. After every assignment to \<open>current\<close> the stored configuration has a \<open>categories\<close>
  object, and one \<open>configChange\<close> event is emitted. The code misses one case: for the
  value \<open>{categories: null}\<close> the test \<open>typeof categories !== 'object'\<close> is false, the
  default is not set, the stored \<open>categories\<close> is \<open>null\<close>, and \<open>getCategoryLevel\<close>
  raises a TypeError on the stored configuration.
\<close>

theorem set_current_null_categories:
  "current (set_current lv this (plain [(''categories'', JNull)])) = plain [(''categories'', JNull)] \<and>
   get (current (set_current lv this (plain [(''categories'', JNull)]))) ''categories'' = JNull \<and>
   getCategoryLevel (set_current lv this (plain [(''categories'', JNull)])) c = Threw TypeError"
  by (simp add: set_current_def plain_def Let_def getCategoryLevel_def)

theorem set_current_null_categories_witness:
  "get (current (new_LoggerConfiguration LogLevel0 (plain [(''categories'', JNull)]))) ''categories''
     = JNull \<and>
   getCategoryLevel (new_LoggerConfiguration LogLevel0 (plain [(''categories'', JNull)])) ''Default''
     = Threw TypeError \<and>
   emitted (new_LoggerConfiguration LogLevel0 (plain [(''categories'', JNull)]))
     = [(CONFIG_CHANGE, plain [(''categories'', JNull)])]"
  using set_current_null_categories
    [of LogLevel0 "\<lparr>current = JUndefined, emitted = []\<rparr>" "''Default''"]
  by (simp add: new_LoggerConfiguration_def set_current_emits_once plain_def)

section \<open>Properties of LogWrapper\<close>

text \<open>
  C9. \<open>error\<close> forwards its message to the underlying logger whatever the level of the
  wrapper is: it makes exactly one \<open>error\<close> call, with the string itself when the message
  is a string. When \<open>Silent\<close> is below \<open>Debug\<close>, \<open>Info\<close> and \<open>Warn\<close> in the enumeration,
  the logger returned by \<open>silent()\<close> has level \<open>Silent\<close>, makes no call for \<open>debug\<close>,
  \<open>log\<close>, \<open>info\<close> and \<open>warn\<close>, and still makes the \<open>error\<close> call.
\<close>

theorem error_ignores_level:
  "error this (Text s) = [Logger_error s] \<and>
   error (this\<lparr>level := l\<rparr>) m = [Logger_error (messageString m)] \<and>
   (Silent lv < Debug lv \<and> Silent lv < Info lv \<and> Silent lv < Warn lv \<longrightarrow>
      level (silent lv) = Silent lv \<and>
      debug lv (silent lv) s = [] \<and> log lv (silent lv) s = [] \<and>
      info lv (silent lv) s = [] \<and> warn lv (silent lv) s = [] \<and>
      error (silent lv) m = [Logger_error (messageString m)])"
  by (simp add: error_def silent_def set_level_def new_LogWrapper_def debug_def log_def
      info_def warn_def)

theorem error_ignores_level_witness:
  "Silent LogLevel0 < Debug LogLevel0 \<and> Silent LogLevel0 < Info LogLevel0 \<and>
   Silent LogLevel0 < Warn LogLevel0 \<and>
   level (silent LogLevel0) = 0 \<and>
   debug LogLevel0 (silent LogLevel0) ''disk full'' = [] \<and>
   log LogLevel0 (silent LogLevel0) ''disk full'' = [] \<and>
   info LogLevel0 (silent LogLevel0) ''disk full'' = [] \<and>
   warn LogLevel0 (silent LogLevel0) ''disk full'' = [] \<and>
   error (silent LogLevel0) (ErrorObject False ''boom'' (Some ''boom at line 1''))
     = [Logger_error ''boom at line 1'']"
  using error_ignores_level
    [of "silent LogLevel0" "''disk full''" 0
        "ErrorObject False ''boom'' (Some ''boom at line 1'')" LogLevel0]
  by (simp add: LogLevel0_def)

section \<open>Properties of name resolution\<close>

lemma isFunction_truthy: "isFunction v \<Longrightarrow> truthy v"
  by (cases v) (simp_all add: isFunction_def)

text \<open>
  C5, as stated, fails: an object literal of handlers with no \<open>name\<close> and no \<open>getName\<close>
  has the constructor \<open>Object\<close>, so it is named \<open>Object\<close> and not the empty string.
\<close>

theorem actorName_counterexample:
  "actorName (plain [(''echo'', func ''echo'' (Some JUndefined) None)]) = Returned (JStr ''Object'')"
  by (simp add: actorName_def instantiate_def nameOf_def isFunction_def plain_def func_def
      builtin_def)

text \<open>
  C5, amended. Let \<open>b\<close> be the behaviour, instantiated with \<open>new\<close> when it is a function.
  The name is: the \<open>name\<close> property of \<open>b\<close> when it is truthy (the result of calling it
  when it is a function); otherwise the result of \<open>getName()\<close> when \<open>getName\<close> is a
  function; otherwise the name of the constructor of \<open>b\<close> when it is truthy; otherwise the
  empty string. In particular an object literal with no \<open>name\<close>, no \<open>getName\<close> and no
  \<open>constructor\<close> of its own is named \<open>Object\<close>.
\<close>

theorem actorName_priority:
  assumes "instantiate B = Returned b" and "\<not> nullish b"
  shows "(isFunction B \<longrightarrow> js_new B = Returned b) \<and> (\<not> isFunction B \<longrightarrow> b = B) \<and>
    (truthy (get b ''name'') \<and> \<not> isFunction (get b ''name'') \<longrightarrow>
       actorName B = Returned (get b ''name'')) \<and>
    (isFunction (get b ''name'') \<longrightarrow> actorName B = js_call (get b ''name'')) \<and>
    (\<not> truthy (get b ''name'') \<and> isFunction (get b ''getName'') \<longrightarrow>
       actorName B = js_call (get b ''getName'')) \<and>
    (\<not> truthy (get b ''name'') \<and> \<not> isFunction (get b ''getName'') \<and>
     truthy (get (get b ''constructor'') ''name'') \<longrightarrow>
       actorName B = Returned (get (get b ''constructor'') ''name'')) \<and>
    (\<not> truthy (get b ''name'') \<and> \<not> isFunction (get b ''getName'') \<and>
     \<not> truthy (get (get b ''constructor'') ''name'') \<longrightarrow>
       actorName B = Returned (JStr [])) \<and>
    (map_of ps ''name'' = None \<and> map_of ps ''getName'' = None \<and>
     map_of ps ''constructor'' = None \<longrightarrow>
       actorName (plain ps) = Returned (JStr ''Object''))"
proof -
  have inst: "(isFunction B \<longrightarrow> js_new B = Returned b) \<and> (\<not> isFunction B \<longrightarrow> b = B)"
    using assms(1) by (simp add: instantiate_def split: if_splits)
  have nm: "actorName B = nameOf b"
    using assms(1) by (simp add: actorName_def)
  have ctor: "\<not> truthy (get b ''constructor'') \<Longrightarrow> get (get b ''constructor'') ''name'' = JUndefined"
    by (cases "get b ''constructor''") simp_all
  have c1: "truthy (get b ''name'') \<and> \<not> isFunction (get b ''name'') \<longrightarrow>
       actorName B = Returned (get b ''name'')"
    using assms(2) by (simp add: nm nameOf_def result_def)
  have c2: "isFunction (get b ''name'') \<longrightarrow> actorName B = js_call (get b ''name'')"
    using assms(2) by (simp add: nm nameOf_def result_def isFunction_truthy)
  have c3: "\<not> truthy (get b ''name'') \<and> isFunction (get b ''getName'') \<longrightarrow>
       actorName B = js_call (get b ''getName'')"
    using assms(2) by (simp add: nm nameOf_def)
  have c4: "\<not> truthy (get b ''name'') \<and> \<not> isFunction (get b ''getName'') \<and>
     truthy (get (get b ''constructor'') ''name'') \<longrightarrow>
       actorName B = Returned (get (get b ''constructor'') ''name'')"
    using assms(2) ctor by (auto simp add: nm nameOf_def)
  have c5: "\<not> truthy (get b ''name'') \<and> \<not> isFunction (get b ''getName'') \<and>
     \<not> truthy (get (get b ''constructor'') ''name'') \<longrightarrow>
       actorName B = Returned (JStr [])"
    using assms(2) by (simp add: nm nameOf_def)
  have c6: "map_of ps ''name'' = None \<and> map_of ps ''getName'' = None \<and>
     map_of ps ''constructor'' = None \<longrightarrow>
       actorName (plain ps) = Returned (JStr ''Object'')"
    by (simp add: actorName_def instantiate_def nameOf_def isFunction_def plain_def builtin_def)
  from inst c1 c2 c3 c4 c5 c6 show ?thesis by blast
qed

theorem actorName_priority_witness:
  "instantiate (js_class ''Foo'' [(''getName'', func ''getName'' (Some (JStr ''Bar'')) None)]) =
     Returned (JObj [] [(''getName'', func ''getName'' (Some (JStr ''Bar'')) None),
                        (''constructor'', func ''Foo'' None None)] NoCode) \<and>
   \<not> nullish (JObj [] [(''getName'', func ''getName'' (Some (JStr ''Bar'')) None),
                        (''constructor'', func ''Foo'' None None)] NoCode) \<and>
   actorName (js_class ''Foo'' [(''getName'', func ''getName'' (Some (JStr ''Bar'')) None)])
     = Returned (JStr ''Bar'') \<and>
   actorName (plain [(''echo'', JNum 1)]) = Returned (JStr ''Object'')"
  using actorName_priority
    [of "js_class ''Foo'' [(''getName'', func ''getName'' (Some (JStr ''Bar'')) None)]"
        "JObj [] [(''getName'', func ''getName'' (Some (JStr ''Bar'')) None),
                  (''constructor'', func ''Foo'' None None)] NoCode"
        "[(''echo'', JNum 1)]"]
  by (simp add: instantiate_def isFunction_def func_def js_class_def)

section \<open>Properties of createActor\<close>

lemma map_of_rev_distinct: "distinct (map fst xs) \<Longrightarrow> map_of (rev xs) k = map_of xs k"
proof (induction xs)
  case Nil
  then show ?case by simp
next
  case (Cons p xs)
  obtain a b where p: "p = (a, b)" by (cases p)
  from Cons.prems have "a \<notin> fst ` set xs" and dist: "distinct (map fst xs)"
    by (simp_all add: p)
  then have none: "map_of (rev xs) a = None" "map_of xs a = None"
    by (simp_all add: map_of_eq_None_iff)
  show ?case
    using none Cons.IH [OF dist] by (simp add: p map_add_def split: option.splits)
qed

text \<open>Reading a property after a run of assignments: the last assignment to it wins.\<close>

lemma get_foldl_put:
  "get (foldl put (JObj e h c) ps) k =
     (case map_of (rev ps) k of Some v \<Rightarrow> v | None \<Rightarrow> get (JObj e h c) k)"
proof (induction ps arbitrary: e)
  case Nil
  then show ?case by simp
next
  case (Cons p ps)
  obtain k' v' where p: "p = (k', v')" by (cases p)
  show ?case
    by (simp add: p Cons.IH update_conv' map_add_def split: option.splits)
qed

lemma foldl_put_JObj: "\<exists>e'. foldl put (JObj e h c) ps = JObj e' h c"
proof (induction ps arbitrary: e)
  case Nil
  then show ?case by simp
next
  case (Cons p ps)
  obtain k' v' where p: "p = (k', v')" by (cases p)
  show ?case using Cons.IH by (simp add: p)
qed

lemma get_underscore_extend2:
  assumes "distinct (map fst (enumerable a))" and "distinct (map fst (enumerable b))"
  shows "get (underscore_extend (JObj e h c) [a, b]) k =
     (case map_of (enumerable b) k of
        Some v \<Rightarrow> v
      | None \<Rightarrow> (case map_of (enumerable a) k of Some v \<Rightarrow> v | None \<Rightarrow> get (JObj e h c) k))"
proof -
  obtain e' where e': "foldl put (JObj e h c) (enumerable a) = JObj e' h c"
    using foldl_put_JObj by blast
  have inner: "get (JObj e' h c) k =
      (case map_of (enumerable a) k of Some v \<Rightarrow> v | None \<Rightarrow> get (JObj e h c) k)"
    using get_foldl_put [of e h c "enumerable a" k] assms(1)
    by (simp only: e' map_of_rev_distinct)
  have "underscore_extend (JObj e h c) [a, b] = foldl put (JObj e' h c) (enumerable b)"
    by (simp add: underscore_extend_def e')
  then have "get (underscore_extend (JObj e h c) [a, b]) k =
      (case map_of (enumerable b) k of Some v \<Rightarrow> v | None \<Rightarrow> get (JObj e' h c) k)"
    using get_foldl_put [of e' h c "enumerable b" k] assms(2)
    by (simp only: map_of_rev_distinct)
  then show ?thesis
    by (simp only: inner)
qed

lemma get_extend_plain:
  assumes "distinct (map fst (enumerable a))" and "distinct (map fst (enumerable b))"
  shows "get (underscore_extend (plain ps) [a, b]) k =
     (case map_of (enumerable b) k of
        Some v \<Rightarrow> v
      | None \<Rightarrow> (case map_of (enumerable a) k of Some v \<Rightarrow> v | None \<Rightarrow> get (plain ps) k))"
  unfolding plain_def by (rule get_underscore_extend2 [OF assms])

lemma toLowerCase_F: "toLowerCase CHR ''F'' = CHR ''f''"
  by code_simp

text \<open>
  C1, as stated, fails for an anonymous behaviour: its name is the empty string, the guard
  \<open>this.config && actorName\<close> is false, and the entry the configuration holds under
  the empty key is not merged. Here the entry asks for a forked actor and an in-memory
  actor is created. No name begins with a character outside ASCII here, so the case table
  plays no part and is taken to be the identity.
\<close>

theorem actorOptions_counterexample:
  "actorName (JObj [] [] NoCode) = Returned (JStr []) \<and>
   get (config (system_with (plain [([], plain [(''mode'', JStr ''forked'')])]))) (decapitalize id [])
     = plain [(''mode'', JStr ''forked'')] \<and>
   actorOptions id (system_with (plain [([], plain [(''mode'', JStr ''forked'')])])) (JStr []) (plain [])
     = Some (plain []) \<and>
   createActor id (system_with (plain [([], plain [(''mode'', JStr ''forked'')])]))
     (JObj [] [] NoCode) (0::nat) (plain [])
     = Some (Returned (CreateInMemoryActor (JObj [] [] NoCode) 0 (JStr [])))"
  by (simp add: createActor_def actorName_def instantiate_def nameOf_def isFunction_def
      plain_def builtin_def actorOptions_def place_def system_with_def new_ActorSystem_def)

text \<open>
  C1, amended. When the system has a configuration and the name \<open>s\<close> of the behaviour is
  not empty, the options \<open>createActor\<close> works with are the merge of the default
  \<open>{mode: 'in-memory'}\<close>, overridden by the entry of the configuration under the
  decapitalized name, overridden by the caller's options: each property is read from the
  caller's options when they have it, else from the entry when it has it, else from the
  default. The actor is placed according to these options. With the configuration
  \<open>{foo: {mode: 'forked', clusterSize: 3}}\<close>, the name \<open>Foo\<close> and the caller's options
  \<open>{clusterSize: 1}\<close>, they are \<open>{mode: 'forked', clusterSize: 1}\<close>. For an anonymous
  behaviour (the empty name), in every system and for all options of the caller, no
  entry of the configuration is consulted: the options are the caller's as they are
  (\<open>{}\<close> when the caller gives none), and the actor is placed according to them.
\<close>

theorem actorOptions_merge:
  assumes "truthy (config this)" and "s \<noteq> []"
    and "distinct (map fst (enumerable (get (config this) (decapitalize lowerFirst s))))"
    and "distinct (map fst (enumerable opts))"
  shows "(\<exists>merged. actorOptions lowerFirst this (JStr s) opts = Some merged \<and>
     (\<forall>k. get merged k =
        (case map_of (enumerable opts) k of
           Some v \<Rightarrow> v
         | None \<Rightarrow>
             (case map_of (enumerable (get (config this) (decapitalize lowerFirst s))) k of
                Some v \<Rightarrow> v
              | None \<Rightarrow> get (plain [(''mode'', JStr ''in-memory'')]) k))) \<and>
     (actorName B = Returned (JStr s) \<longrightarrow>
        createActor lowerFirst this B parent opts =
          map_option Returned (place B parent (JStr s) merged))) \<and>
     actorOptions lowerFirst
       (system_with (plain [(''foo'', plain [(''mode'', JStr ''forked''), (''clusterSize'', JNum 3)])]))
       (JStr ''Foo'') (plain [(''clusterSize'', JNum 1)])
       = Some (plain [(''mode'', JStr ''forked''), (''clusterSize'', JNum 1)]) \<and>
     actorOptions lowerFirst any (JStr []) opts0 = Some (if truthy opts0 then opts0 else plain []) \<and>
     (actorName A = Returned (JStr []) \<longrightarrow>
        createActor lowerFirst any A parent opts0 =
          map_option Returned
            (place A parent (JStr []) (if truthy opts0 then opts0 else plain [])))"
proof -
  let ?o = "if truthy opts then opts else plain []"
  let ?m = "underscore_extend (plain [(''mode'', JStr ''in-memory'')])
              [get (config this) (decapitalize lowerFirst s), ?o]"
  have en: "enumerable ?o = enumerable opts"
    by (cases opts) (simp_all add: plain_def)
  have ao: "actorOptions lowerFirst this (JStr s) opts = Some ?m"
    using assms(1,2) by (simp add: actorOptions_def Let_def)
  have d: "distinct (map fst (enumerable ?o))"
    using assms(4) by (simp only: en)
  have g: "\<forall>k. get ?m k =
        (case map_of (enumerable opts) k of
           Some v \<Rightarrow> v
         | None \<Rightarrow>
             (case map_of (enumerable (get (config this) (decapitalize lowerFirst s))) k of
                Some v \<Rightarrow> v
              | None \<Rightarrow> get (plain [(''mode'', JStr ''in-memory'')]) k))"
    using get_extend_plain [OF assms(3) d, of "[(''mode'', JStr ''in-memory'')]"]
    by (simp only: en) blast
  have c: "actorName B = Returned (JStr s) \<longrightarrow>
        createActor lowerFirst this B parent opts =
          map_option Returned (place B parent (JStr s) ?m)"
    by (simp add: createActor_def ao split: option.splits)
  have ex: "actorOptions lowerFirst
       (system_with (plain [(''foo'', plain [(''mode'', JStr ''forked''), (''clusterSize'', JNum 3)])]))
       (JStr ''Foo'') (plain [(''clusterSize'', JNum 1)])
       = Some (plain [(''mode'', JStr ''forked''), (''clusterSize'', JNum 1)])"
    by (simp add: actorOptions_def system_with_def new_ActorSystem_def plain_def
        underscore_extend_def toLowerCase_F)
  have an: "actorOptions lowerFirst any (JStr []) opts0 =
      Some (if truthy opts0 then opts0 else plain [])"
    by (simp add: actorOptions_def Let_def)
  have ac: "actorName A = Returned (JStr []) \<longrightarrow>
        createActor lowerFirst any A parent opts0 =
          map_option Returned
            (place A parent (JStr []) (if truthy opts0 then opts0 else plain []))"
    by (simp add: createActor_def an split: option.splits)
  from ao g c have "\<exists>merged. actorOptions lowerFirst this (JStr s) opts = Some merged \<and>
     (\<forall>k. get merged k =
        (case map_of (enumerable opts) k of
           Some v \<Rightarrow> v
         | None \<Rightarrow>
             (case map_of (enumerable (get (config this) (decapitalize lowerFirst s))) k of
                Some v \<Rightarrow> v
              | None \<Rightarrow> get (plain [(''mode'', JStr ''in-memory'')]) k))) \<and>
     (actorName B = Returned (JStr s) \<longrightarrow>
        createActor lowerFirst this B parent opts =
          map_option Returned (place B parent (JStr s) merged))"
    by blast
  with ex an ac show ?thesis by blast
qed

theorem actorOptions_merge_witness:
  "truthy (config (system_with
      (plain [(''foo'', plain [(''mode'', JStr ''forked''), (''clusterSize'', JNum 3)])]))) \<and>
   ''Foo'' \<noteq> [] \<and>
   decapitalize id ''Foo'' = ''foo'' \<and>
   actorName (js_class ''Foo'' []) = Returned (JStr ''Foo'') \<and>
   createActor id
     (system_with (plain [(''foo'', plain [(''mode'', JStr ''forked''), (''clusterSize'', JNum 3)])]))
     (js_class ''Foo'' []) (0::nat) (plain [(''clusterSize'', JNum 1)])
     = Some (Returned (CreateForkedActor (js_class ''Foo'' []) 0 (JStr ''Foo''))) \<and>
   actorName (JObj [] [] NoCode) = Returned (JStr []) \<and>
   createActor id
     (system_with (plain [([], plain [(''mode'', JStr ''forked'')])]))
     (JObj [] [] NoCode) (0::nat) (plain [(''clusterSize'', JNum 1)])
     = Some (Returned (CreateInMemoryActor (JObj [] [] NoCode) 0 (JStr [])))"
  using actorOptions_merge
    [where this = "system_with
        (plain [(''foo'', plain [(''mode'', JStr ''forked''), (''clusterSize'', JNum 3)])])"
      and s = "''Foo''" and lowerFirst = id and opts = "plain [(''clusterSize'', JNum 1)]"
      and B = "js_class ''Foo'' []" and parent = "0::nat"
      and any = "system_with (plain [([], plain [(''mode'', JStr ''forked'')])])"
      and A = "JObj [] [] NoCode" and ?opts0.0 = "plain [(''clusterSize'', JNum 1)]"]
  by (simp add: createActor_def actorName_def instantiate_def nameOf_def isFunction_def
      plain_def builtin_def actorOptions_def place_def system_with_def new_ActorSystem_def
      js_class_def func_def underscore_extend_def toLowerCase_F result_def)

text \<open>
  C2, as stated, fails: for an unknown mode \<open>createActor\<close> does not throw. It returns a
  promise, made by \<open>P.resolve().throw(...)\<close>, which is rejected with the error. The system
  has no configuration here, so no name is decapitalized and the case table plays no part.
\<close>

theorem createActor_counterexample:
  "createActor id (new_ActorSystem JUndefined) (plain []) (0::nat) (plain [(''mode'', JStr ''remote'')])
   = Some (Returned (Rejection (JsErrorCat ''Unknown actor mode: '' (JStr ''remote''))))"
  by (simp add: createActor_def actorName_def instantiate_def nameOf_def isFunction_def
      plain_def builtin_def actorOptions_def new_ActorSystem_def place_def)

text \<open>
  C2, amended. When the name of the behaviour is resolved, the cluster size of the options
  is not greater than 1 and their mode, \<open>options.mode || 'in-memory'\<close>, is neither
  \<open>in-memory\<close> nor \<open>forked\<close>, \<open>createActor\<close> returns a promise that is rejected with the
  error \<open>Unknown actor mode:\<close> followed by the mode.
\<close>

theorem createActor_unknown_mode:
  assumes "actorName B = Returned name"
    and "actorOptions lowerFirst this name opts = Some opts'"
    and "gt_one (get opts' ''clusterSize'') = Some False"
    and "(if truthy (get opts' ''mode'') then get opts' ''mode'' else JStr ''in-memory'')
           \<notin> {JStr ''in-memory'', JStr ''forked''}"
  shows "createActor lowerFirst this B parent opts =
     Some (Returned (Rejection (JsErrorCat ''Unknown actor mode: '' (get opts' ''mode''))))"
  using assms by (simp add: createActor_def place_def split: if_splits)

theorem createActor_unknown_mode_witness:
  "actorName (plain []) = Returned (JStr ''Object'') \<and>
   actorOptions id (new_ActorSystem JUndefined) (JStr ''Object'') (plain [(''mode'', JStr ''remote'')])
     = Some (plain [(''mode'', JStr ''remote'')]) \<and>
   gt_one (get (plain [(''mode'', JStr ''remote'')]) ''clusterSize'') = Some False \<and>
   createActor id (new_ActorSystem JUndefined) (plain []) (0::nat) (plain [(''mode'', JStr ''remote'')])
     = Some (Returned (Rejection (JsErrorCat ''Unknown actor mode: ''
          (get (plain [(''mode'', JStr ''remote'')]) ''mode''))))"
  using createActor_unknown_mode
    [where B = "plain []" and name = "JStr ''Object''" and lowerFirst = id
      and this = "new_ActorSystem JUndefined" and opts = "plain [(''mode'', JStr ''remote'')]"
      and opts' = "plain [(''mode'', JStr ''remote'')]" and parent = "0::nat"]
  by (simp add: actorName_def instantiate_def nameOf_def isFunction_def
      plain_def builtin_def actorOptions_def new_ActorSystem_def)

section \<open>Properties of the forked spawn\<close>





















text \<open>
  C3, as stated, fails on a frame that is of type \<open>actor-created\<close>, has a body with an
  id, and carries an error as well: the error is tested first and the spawn is rejected.
\<close>

theorem on_message_counterexample:
  "on_message () () () (JStr ''Worker'')
     (plain [(''type'', JStr ''actor-created''), (''body'', plain [(''id'', JStr ''a1'')]),
             (''error'', JStr ''boom'')])
   = Returned (Rejected (JsError (JStr ''boom'')))"
  by (simp add: on_message_def plain_def)

text \<open>
  C3, amended. The first frame received from the worker, a value other than \<open>null\<close> and
  \<open>undefined\<close>, is classified in this order. A frame with a truthy \<open>error\<close> rejects the
  spawn with that error, whatever else it carries. Otherwise a frame of type
  \<open>actor-created\<close> whose body has a truthy \<open>id\<close> resolves the spawn with a
  ForkedActorParent built from the system, the parent, the worker, that id and the actor
  name. Every other frame rejects the spawn with the error
  \<open>Unexpected response for "create-actor" message.\<close>
\<close>

theorem on_message_classification:
  assumes "\<not> nullish msg"
  shows "(truthy (get msg ''error'') \<longrightarrow>
       on_message this parent worker name msg = Returned (Rejected (JsError (get msg ''error'')))) \<and>
    (\<not> truthy (get msg ''error'') \<and> get msg ''type'' = JStr ''actor-created'' \<and>
     truthy (get (get msg ''body'') ''id'') \<longrightarrow>
       on_message this parent worker name msg =
         Returned (Fulfilled \<lparr>fap_system = this, fap_parent = parent, fap_bus = worker,
                     fap_id = get (get msg ''body'') ''id'', fap_name = name\<rparr>)) \<and>
    (\<not> truthy (get msg ''error'') \<and>
     (get msg ''type'' \<noteq> JStr ''actor-created'' \<or> \<not> truthy (get (get msg ''body'') ''id'')) \<longrightarrow>
       on_message this parent worker name msg =
         Returned (Rejected (JsError (JStr unexpected_response))))"
proof -
  have body: "\<not> truthy (get msg ''body'') \<Longrightarrow> \<not> truthy (get (get msg ''body'') ''id'')"
    by (cases "get msg ''body''") simp_all
  show ?thesis
    using assms body by (auto simp add: on_message_def)
qed

theorem on_message_classification_witness:
  "\<not> nullish (plain [(''type'', JStr ''actor-created''), (''body'', plain [(''id'', JStr ''a1'')])]) \<and>
   on_message () () () (JStr ''Worker'')
     (plain [(''type'', JStr ''actor-created''), (''body'', plain [(''id'', JStr ''a1'')])])
   = Returned (Fulfilled \<lparr>fap_system = (), fap_parent = (), fap_bus = (),
                fap_id = JStr ''a1'', fap_name = JStr ''Worker''\<rparr>) \<and>
   on_message () () () (JStr ''Worker'') (plain [(''type'', JStr ''pong'')])
   = Returned (Rejected (JsError (JStr unexpected_response)))"
  using on_message_classification
    [of "plain [(''type'', JStr ''actor-created''), (''body'', plain [(''id'', JStr ''a1'')])]"
        "()" "()" "()" "JStr ''Worker''"]
    on_message_classification [of "plain [(''type'', JStr ''pong'')]" "()" "()" "()" "JStr ''Worker''"]
  by (simp add: plain_def)

section \<open>Properties of require\<close>

text \<open>
  Where the helper does what its documentation says: a path that begins with a slash is
  resolved against the application root, as a whole directory when it ends with a slash;
  a path that begins with neither a slash nor a dot and does not end with a slash is
  delegated to the ambient module resolution unchanged.
\<close>

lemma require_documented:
  "require root (CHR ''/'' # q @ ''/'') = RequireDir (root @ CHR ''/'' # q @ ''/'') \<and>
   require root ''/'' = RequireDir (root @ ''/'') \<and>
   (q \<noteq> [] \<and> last q \<noteq> CHR ''/'' \<longrightarrow>
      require root (CHR ''/'' # q) = GlobalRequire (root @ CHR ''/'' # q)) \<and>
   (p = [] \<or> (hd p \<noteq> CHR ''/'' \<and> hd p \<noteq> CHR ''.'' \<and> last p \<noteq> CHR ''/'') \<longrightarrow>
      require root p = GlobalRequire p)"
  by (auto simp add: require_def)

text \<open>
  C6. A path that ends with a slash loads the whole directory, and a path that begins with
  a slash is resolved against the application root; every other path is delegated to the
  ambient module resolution unchanged. The code misses two cases. The path \<open>foo/\<close> ends
  with a slash, yet it is handed to the ambient resolution and no directory is loaded:
  the test for the final slash is reached only by paths that begin with a slash or a dot.
  The path \<open>./foo\<close> is not delegated unchanged: the application root is put in front of it
  with nothing in between, which gives \<open>/app./foo\<close>.
\<close>

theorem require_misses_directory:
  "require ''/app'' ''foo/'' = GlobalRequire ''foo/'' \<and>
   require ''/app'' ''./foo'' = GlobalRequire ''/app./foo''"
  by (simp add: require_def)

section \<open>Properties of the configuration loader\<close>

lemma loadDefault_fails:
  assumes "\<forall>d. readFile env (defaultPath env) = Some d \<longrightarrow> parse env d = None"
  shows "loadDefault env this =
     (log_info (''Failed to load actor configuration file '' @ defaultPath env @
                '', no actor configuration will be used.'') this, Fulfilled ())"
  using assms
  by (simp add: loadDefault_def catch_p_def then_p_def readFileAsync_def use_file_def
      split: option.splits promise.splits)

lemma loadDefault_reads:
  assumes "readFile env (defaultPath env) = Some d" and "parse env d = Some v"
  shows "loadDefault env this =
     (log_info (''Using actor configuration file: '' @ defaultPath env) (this\<lparr>config := v\<rparr>),
      Fulfilled ())"
  using assms
  by (simp add: loadDefault_def catch_p_def then_p_def readFileAsync_def use_file_def)

lemma loadDefault_fulfilled: "snd (loadDefault env this) = Fulfilled ()"
  by (simp add: loadDefault_def catch_p_def then_p_def readFileAsync_def use_file_def
      split: option.splits promise.splits)

lemma loadDefault_logs_info:
  "\<exists>m. log_calls (fst (loadDefault env this)) = log_calls this @ [(''info'', m)]"
proof (cases "\<forall>d. readFile env (defaultPath env) = Some d \<longrightarrow> parse env d = None")
  case True
  then show ?thesis by (simp add: loadDefault_fails log_info_def)
next
  case False
  then obtain d v where "readFile env (defaultPath env) = Some d" "parse env d = Some v" by auto
  then show ?thesis by (simp add: loadDefault_reads log_info_def)
qed

lemma loadConfiguration_path_fails:
  assumes "\<forall>d. readFile env path = Some d \<longrightarrow> parse env d = None"
  shows "loadConfiguration env this (JStr path) =
     loadDefault env
       (log_info (''Failed to load actor configuration file '' @ path @
                  '', will try default path: '' @ defaultPath env) this)"
  using assms
  by (simp add: loadConfiguration_def isObject_def catch_p_def then_p_def readFileAsync_def
      use_file_def split: option.splits promise.splits)

lemma loadConfiguration_path_reads:
  assumes "readFile env path = Some d" and "parse env d = Some v"
  shows "loadConfiguration env this (JStr path) =
     (log_info (''Using actor configuration file: '' @ path) (this\<lparr>config := v\<rparr>), Fulfilled ())"
  using assms
  by (simp add: loadConfiguration_def isObject_def catch_p_def then_p_def readFileAsync_def
      use_file_def)

lemma loadConfiguration_fulfilled: "snd (loadConfiguration env this cfg) = Fulfilled ()"
proof (cases "isObject cfg")
  case True
  then show ?thesis by (simp add: loadConfiguration_def)
next
  case False
  show ?thesis
  proof (cases cfg)
    case (JStr path)
    show ?thesis
    proof (cases "\<forall>d. readFile env path = Some d \<longrightarrow> parse env d = None")
      case True
      then show ?thesis
        using JStr by (simp add: loadConfiguration_path_fails loadDefault_fulfilled)
    next
      case f: False
      then obtain d v where "readFile env path = Some d" "parse env d = Some v" by auto
      then show ?thesis
        using JStr by (simp add: loadConfiguration_path_reads)
    qed
  qed (use False in \<open>simp_all add: loadConfiguration_def loadDefault_fulfilled\<close>)
qed

text \<open>Every call the loader makes to the log is a call of \<open>info\<close>.\<close>

lemma loadConfiguration_logs_info:
  "\<exists>ms. log_calls (fst (loadConfiguration env this cfg)) = log_calls this @ map (Pair ''info'') ms"
proof (cases "isObject cfg")
  case True
  show ?thesis
  proof (cases "truthy (get (options this) ''forked'')")
    case t: True
    have "log_calls (fst (loadConfiguration env this cfg)) = log_calls this @ map (Pair ''info'') []"
      using True t by (simp add: loadConfiguration_def)
    then show ?thesis by blast
  next
    case f: False
    have "log_calls (fst (loadConfiguration env this cfg)) =
        log_calls this @ map (Pair ''info'') [''Using programmatic actor configuration.'']"
      using True f by (simp add: loadConfiguration_def log_info_def)
    then show ?thesis by blast
  qed
next
  case False
  have dflt: "\<exists>ms. log_calls (fst (loadDefault env this)) = log_calls this @ map (Pair ''info'') ms"
  proof -
    obtain m where "log_calls (fst (loadDefault env this)) = log_calls this @ [(''info'', m)]"
      using loadDefault_logs_info by blast
    then have "log_calls (fst (loadDefault env this)) = log_calls this @ map (Pair ''info'') [m]"
      by simp
    then show ?thesis by blast
  qed
  show ?thesis
  proof (cases cfg)
    case (JStr path)
    show ?thesis
    proof (cases "\<forall>d. readFile env path = Some d \<longrightarrow> parse env d = None")
      case True
      let ?m = "''Failed to load actor configuration file '' @ path @
                  '', will try default path: '' @ defaultPath env"
      obtain m where "log_calls (fst (loadDefault env (log_info ?m this))) =
          log_calls (log_info ?m this) @ [(''info'', m)]"
        using loadDefault_logs_info by blast
      then have "log_calls (fst (loadConfiguration env this cfg)) =
          log_calls this @ map (Pair ''info'') [?m, m]"
        using JStr loadConfiguration_path_fails [OF True] by (simp add: log_info_def)
      then show ?thesis by blast
    next
      case f: False
      then obtain d v where "readFile env path = Some d" "parse env d = Some v" by auto
      then have "log_calls (fst (loadConfiguration env this cfg)) =
          log_calls this @ map (Pair ''info'') [''Using actor configuration file: '' @ path]"
        using JStr by (simp add: loadConfiguration_path_reads log_info_def)
      then show ?thesis by blast
    qed
  qed (use False dflt in \<open>simp_all add: loadConfiguration_def\<close>)
qed

text \<open>
  C4, as stated, fails in one respect: the loader logs no warning. When neither the given
  path nor the default path can be read, the two messages are logged with \<open>info\<close>.
\<close>

theorem loadConfiguration_counterexample:
  "loadConfiguration (no_files ''/app'') (new_ActorSystem JUndefined) (JStr ''/nonexistent'')
   = (\<lparr>config = JUndefined, options = plain [], debugPortCounter = 1,
       log_calls =
         [(''info'', ''Failed to load actor configuration file /nonexistent, will try default path: /app/actors.json''),
          (''info'', ''Failed to load actor configuration file /app/actors.json, no actor configuration will be used.'')]\<rparr>,
      Fulfilled ())"
  by (simp add: loadConfiguration_def isObject_def catch_p_def then_p_def readFileAsync_def
      loadDefault_def defaultPath_def log_info_def new_ActorSystem_def no_files_def)

text \<open>
  C4, amended. Loading the configuration never rejects, and every message it logs is
  logged with \<open>info\<close>. A configuration that is an object is used directly. For a path
  whose read or JSON parse fails, a message is logged and the loader goes on with the
  default path \<open><appRoot>/actors.json\<close>. When the read or the parse of the default path
  fails, a message is logged and the configuration of the system is left as it was
  (\<open>undefined\<close> in a new system).
\<close>

theorem loadConfiguration_never_rejects:
  "snd (loadConfiguration env this cfg) = Fulfilled () \<and>
   (\<exists>ms. log_calls (fst (loadConfiguration env this cfg)) =
           log_calls this @ map (Pair ''info'') ms) \<and>
   (isObject cfg \<longrightarrow> config (fst (loadConfiguration env this cfg)) = cfg) \<and>
   ((\<forall>d. readFile env path = Some d \<longrightarrow> parse env d = None) \<longrightarrow>
      loadConfiguration env this (JStr path) =
        loadDefault env
          (log_info (''Failed to load actor configuration file '' @ path @
                     '', will try default path: '' @ defaultPath env) this)) \<and>
   ((\<forall>d. readFile env (defaultPath env) = Some d \<longrightarrow> parse env d = None) \<longrightarrow>
      loadDefault env this =
        (log_info (''Failed to load actor configuration file '' @ defaultPath env @
                   '', no actor configuration will be used.'') this, Fulfilled ()) \<and>
      config (fst (loadDefault env this)) = config this) \<and>
   defaultPath env = appRootPath env @ ''/actors.json'' \<and>
   config (new_ActorSystem opts) = JUndefined"
proof -
  have a: "isObject cfg \<longrightarrow> config (fst (loadConfiguration env this cfg)) = cfg"
    by (simp add: loadConfiguration_def log_info_def)
  have b: "(\<forall>d. readFile env path = Some d \<longrightarrow> parse env d = None) \<longrightarrow>
      loadConfiguration env this (JStr path) =
        loadDefault env
          (log_info (''Failed to load actor configuration file '' @ path @
                     '', will try default path: '' @ defaultPath env) this)"
    using loadConfiguration_path_fails by blast
  have c: "(\<forall>d. readFile env (defaultPath env) = Some d \<longrightarrow> parse env d = None) \<longrightarrow>
      loadDefault env this =
        (log_info (''Failed to load actor configuration file '' @ defaultPath env @
                   '', no actor configuration will be used.'') this, Fulfilled ()) \<and>
      config (fst (loadDefault env this)) = config this"
    by (simp add: loadDefault_fails log_info_def)
  have d: "defaultPath env = appRootPath env @ ''/actors.json''"
    by (simp add: defaultPath_def)
  have e: "config (new_ActorSystem opts) = JUndefined"
    by (simp add: new_ActorSystem_def)
  from loadConfiguration_fulfilled loadConfiguration_logs_info a b c d e show ?thesis
    by blast
qed

theorem loadConfiguration_never_rejects_witness:
  "isObject (plain [(''worker'', plain [(''mode'', JStr ''forked'')])]) \<and>
   readFile (no_files ''/app'') ''/nonexistent'' = None \<and>
   readFile (no_files ''/app'') (defaultPath (no_files ''/app'')) = None \<and>
   snd (loadConfiguration (no_files ''/app'') (new_ActorSystem JUndefined) (JStr ''/nonexistent''))
     = Fulfilled () \<and>
   config (fst (loadConfiguration (no_files ''/app'') (new_ActorSystem JUndefined)
      (plain [(''worker'', plain [(''mode'', JStr ''forked'')])])))
     = plain [(''worker'', plain [(''mode'', JStr ''forked'')])] \<and>
   config (fst (loadConfiguration (no_files ''/app'') (new_ActorSystem JUndefined)
      (JStr ''/nonexistent''))) = JUndefined"
  using loadConfiguration_never_rejects
      [of "no_files ''/app''" "new_ActorSystem JUndefined"
          "plain [(''worker'', plain [(''mode'', JStr ''forked'')])]" "''/nonexistent''" JUndefined]
    loadConfiguration_never_rejects
      [of "no_files ''/app''"
          "log_info (''Failed to load actor configuration file '' @ ''/nonexistent'' @
                     '', will try default path: '' @ defaultPath (no_files ''/app''))
             (new_ActorSystem JUndefined)"
          "JStr ''/nonexistent''" "''/nonexistent''" JUndefined]
  by (simp add: no_files_def isObject_def plain_def log_info_def new_ActorSystem_def)

section \<open>Properties of the default system\<close>

text \<open>
  C8. The accessor should construct the default system on its first call and return that
  same system afterwards. The code tests \<open>if (defaultSystem)\<close> where \<open>if (!defaultSystem)\<close>
  is meant: after the module is loaded the variable is \<open>undefined\<close>, so the first call
  constructs nothing and returns \<open>undefined\<close>, and so does every later call.
\<close>

theorem default_never_constructs:
  "default module_loaded = (None, module_loaded) \<and>
   default_calls module_loaded k = replicate k None"
proof -
  have d: "default module_loaded = (None, module_loaded)"
    by (simp add: default_def module_loaded_def)
  have "default_calls module_loaded k = replicate k None"
    by (induction k) (simp_all add: d)
  with d show ?thesis by simp
qed

end
